theory Spec2Isabelle
  imports Main
begin

section \<open>AppTrack: the record store and its synchronisation with Google Sheets\<close>

text \<open>
  The development embeds the store-related methods of class \<open>AppTrack\<close>
  (\<^verbatim>\<open>src/src/gui/main_window.py\<close>): \<open>load_application_data\<close>, \<open>populate_treeview\<close>,
  \<open>save_edit\<close>, \<open>sync_from_google_sheets\<close>, \<open>sync_to_google_sheets\<close>, \<open>schedule_sync\<close>,
  \<open>schedule_tasks\<close>, \<open>save_application\<close>, \<open>delete_rows\<close> and \<open>toggle_sync\<close>, and the write
  that \<open>draw_submissions_line_graph\<close> makes to the store.

  The store is the pandas DataFrame \<open>self.applications_df\<close>. The helpers of
  \<^verbatim>\<open>src/utils/file_io.py\<close> and \<^verbatim>\<open>src/utils/google_sheets.py\<close> perform input and output; each
  model function receives the outcome of the helper calls it makes (a returned frame or a
  raised exception) as an argument, and records the calls in \<open>trace\<close>.
\<close>

subsection \<open>Values, exceptions and DataFrames\<close>

text \<open>
  A cell holds text, an integer or the missing value NaN. Text is a list of characters,
  read as Python code points below 256.
\<close>

datatype cell = Str string | Num int | NaN

text \<open>
  Exceptions raised by the helpers, by pandas and by Tk. All of them are subclasses of
  Python's \<open>Exception\<close>, so \<^verbatim>\<open>except Exception\<close> catches each one. The argument is the
  message \<open>str(e)\<close>.
\<close>

datatype exn =
    NetworkError string
  | AuthError string
  | MalformedResponse string
  | FileNotFoundError string
  | IOError string
  | TclError string
  | AttributeError string
  | IndexError string
  | ValueError string
  | InvalidIndexError string

fun str_exn :: "exn \<Rightarrow> string" where
  "str_exn (NetworkError m) = m"
| "str_exn (AuthError m) = m"
| "str_exn (MalformedResponse m) = m"
| "str_exn (FileNotFoundError m) = m"
| "str_exn (IOError m) = m"
| "str_exn (TclError m) = m"
| "str_exn (AttributeError m) = m"
| "str_exn (IndexError m) = m"
| "str_exn (ValueError m) = m"
| "str_exn (InvalidIndexError m) = m"

text \<open>The dtype of a column.\<close>

datatype dtype = object | int64 | float64 | datetime64

text \<open>
  A DataFrame: the column labels, the dtype of each column, and the rows in order, each
  row with its index label. A row's cells are listed in column order.
\<close>

record dataframe =
  columns :: "string list"
  dtypes :: "dtype list"
  rows :: "(int \<times> cell list) list"

definition index :: "dataframe \<Rightarrow> int list" where
  "index df = map fst (rows df)"

text \<open>\<^verbatim>\<open>pd.DataFrame()\<close> and \<^verbatim>\<open>pd.DataFrame(columns=cs)\<close>.\<close>

definition DataFrame :: dataframe where
  "DataFrame = \<lparr>columns = [], dtypes = [], rows = []\<rparr>"

definition DataFrame_columns :: "string list \<Rightarrow> dataframe" where
  "DataFrame_columns cs = \<lparr>columns = cs, dtypes = map (\<lambda>c. object) cs, rows = []\<rparr>"

text \<open>\<^verbatim>\<open>df.empty\<close>: an axis of length 0.\<close>

definition empty_df :: "dataframe \<Rightarrow> bool" where
  "empty_df df \<longleftrightarrow> columns df = [] \<or> rows df = []"

text \<open>
  \<^verbatim>\<open>a.equals(b)\<close>: same column labels, same index, same column dtypes and same cells
  (NaN equal to NaN in the same place).
\<close>

definition equals :: "dataframe \<Rightarrow> dataframe \<Rightarrow> bool" where
  "equals a b \<longleftrightarrow> columns a = columns b \<and> dtypes a = dtypes b \<and> rows a = rows b"

text \<open>
  \<^verbatim>\<open>df.fillna(v)\<close>: every NaN cell replaced by \<open>v\<close>. A column in which a cell was filled
  takes the dtype that holds \<open>v\<close> beside its old values: \<open>object\<close> for text.
\<close>

definition has_nan :: "(int \<times> cell list) list \<Rightarrow> nat \<Rightarrow> bool" where
  "has_nan rs j = list_ex (\<lambda>(i, r). j < length r \<and> r ! j = NaN) rs"

definition fill_dtype :: "cell \<Rightarrow> dtype \<Rightarrow> dtype" where
  "fill_dtype v d =
     (case v of
        Str t \<Rightarrow> object
      | Num n \<Rightarrow> (if d = datetime64 then object else d)
      | NaN \<Rightarrow> d)"

definition fillna :: "cell \<Rightarrow> dataframe \<Rightarrow> dataframe" where
  "fillna v df =
     df\<lparr>dtypes := map (\<lambda>(j, d). if has_nan (rows df) j then fill_dtype v d else d)
                      (enumerate 0 (dtypes df)),
        rows := map (\<lambda>(i, r). (i, map (\<lambda>c. if c = NaN then v else c) r)) (rows df)\<rparr>"

text \<open>\<^verbatim>\<open>row.get(col, default)\<close> on a row of a frame with columns \<open>cs\<close>.\<close>

definition row_get :: "string list \<Rightarrow> cell list \<Rightarrow> string \<Rightarrow> cell \<Rightarrow> cell" where
  "row_get cs r col d = (case map_of (zip cs r) col of Some v \<Rightarrow> v | None \<Rightarrow> d)"

subsection \<open>The application state\<close>

text \<open>
  Calls that leave the object: the Google Sheets and Excel helpers, \<open>logging.error\<close>,
  \<open>messagebox.showerror\<close>, and each run of \<open>populate_treeview\<close> (the refresh of the view).
\<close>

datatype call =
    ReadSheets
  | WriteSheets dataframe
  | SaveExcel dataframe
  | PopulateTreeview
  | LoggingError string
  | ShowError string string

datatype callback = Cb_schedule_sync | Cb_sync_to_google_sheets

text \<open>
  The fields of \<open>self\<close> that the embedded methods read or write. \<open>applications_tree\<close> is
  \<open>None\<close> until the Treeview is created; its items are listed in display order, each with
  its item id (the decimal text of an index label, kept as the integer) and its values.
  \<open>edit_entry\<close> holds the text of the open edit Entry. \<open>timers\<close> are the pending callbacks
  of Tk's \<open>after\<close>: identifier, due time in milliseconds and callback; \<open>clock\<close> is the
  current time. \<open>pie_chart_frame\<close> and \<open>line_graph_frame\<close> say whether the attribute exists.
\<close>

record app =
  applications_df :: dataframe
  applications_tree :: "(int \<times> cell list) list option"
  edit_entry :: "string option"
  sync_to_google :: bool
  sync_task :: "nat option"
  timers :: "(nat \<times> nat \<times> callback) list"
  next_after :: nat
  clock :: nat
  pie_chart_frame :: bool
  line_graph_frame :: bool
  trace :: "call list"

definition emit :: "call list \<Rightarrow> app \<Rightarrow> app" where
  "emit cs s = s\<lparr>trace := trace s @ cs\<rparr>"

subsection \<open>populate_treeview\<close>

text \<open>
  The insertion loop of \<open>populate_treeview\<close>: one item per row, with item id the row's
  index label and values \<open>(index + 1, Company, Position, Application Portal URL,
  Date Applied, Status)\<close>. Tk refuses an item id that is already in the tree; the loop then
  stops with the items inserted so far.
\<close>

fun insert_rows ::
  "string list \<Rightarrow> (int \<times> cell list) list \<Rightarrow> (int \<times> cell list) list
     \<Rightarrow> exn option \<times> (int \<times> cell list) list" where
  "insert_rows cs [] t = (None, t)"
| "insert_rows cs ((i, r) # rs) t =
     (if i \<in> set (map fst t) then (Some (TclError ''Item already exists''), t)
      else insert_rows cs rs
             (t @ [(i, [Num (i + 1),
                        row_get cs r ''Company'' (Str ''''),
                        row_get cs r ''Position'' (Str ''''),
                        row_get cs r ''Application Portal URL'' (Str ''''),
                        row_get cs r ''Date Applied'' (Str ''''),
                        row_get cs r ''Status'' (Str '''')])]))"

definition populate_treeview :: "dataframe \<Rightarrow> app \<Rightarrow> exn option \<times> app" where
  "populate_treeview df s =
     (case applications_tree s of
        None \<Rightarrow> (Some (AttributeError ''get_children''), emit [PopulateTreeview] s)
      | Some t \<Rightarrow>
          (case insert_rows (columns df) (rows df) [] of
             (r, t') \<Rightarrow> (r, emit [PopulateTreeview] (s\<lparr>applications_tree := Some t'\<rparr>))))"

subsection \<open>try ... except Exception\<close>

text \<open>
  A method returns the exception that escapes it, if any, and the state it leaves.
  \<open>try_except r h\<close> runs the handler \<open>h\<close> on the state reached when the body raised.
\<close>

definition try_except ::
  "exn option \<times> app \<Rightarrow> (exn \<Rightarrow> app \<Rightarrow> exn option \<times> app) \<Rightarrow> exn option \<times> app" where
  "try_except r h = (case r of (None, s) \<Rightarrow> (None, s) | (Some e, s) \<Rightarrow> h e s)"

subsection \<open>load_application_data\<close>

text \<open>
  \<open>read\<close> is the outcome of \<open>read_applications_from_excel(self.DATA_FILE_PATH)\<close>: the frame
  it returns or the exception it raises.
\<close>

definition load_application_data :: "exn + dataframe \<Rightarrow> app \<Rightarrow> exn option \<times> app" where
  "load_application_data read s =
     try_except
       (case read of
          Inl e \<Rightarrow> (Some e, s)
        | Inr df \<Rightarrow> (None, s\<lparr>applications_df := df\<rparr>))
       (\<lambda>e s'. (None,
          (emit [LoggingError
                   (''Error: Could not read the Excel file from AppData. '' @ str_exn e)] s')
            \<lparr>applications_df := DataFrame\<rparr>))"

subsection \<open>sync_from_google_sheets and sync_to_google_sheets\<close>

text \<open>
  \<open>fetch\<close> is the outcome of \<open>read_from_google_sheets()\<close>. The flag test comes first; the
  rest of the body is inside \<^verbatim>\<open>try ... except Exception\<close>.
\<close>

definition sync_from_google_sheets :: "exn + dataframe \<Rightarrow> app \<Rightarrow> exn option \<times> app" where
  "sync_from_google_sheets fetch s =
     (if \<not> sync_to_google s then (None, s)
      else
        try_except
          (case fetch of
             Inl e \<Rightarrow> (Some e, emit [ReadSheets] s)
           | Inr g \<Rightarrow>
               (let s0 = emit [ReadSheets] s;
                    google_df = fillna (Str '''') g
                in if \<not> empty_df google_df then
                     (if \<not> equals google_df (applications_df s0) then
                        (let s1 = s0\<lparr>applications_df := google_df\<rparr>
                         in case applications_tree s1 of
                              Some t \<Rightarrow> populate_treeview (applications_df s1) s1
                            | None \<Rightarrow> (None, s1))
                      else (None, s0))
                   else (None, s0)))
          (\<lambda>e s'. (None,
             emit [LoggingError (''Error syncing data from Google Sheets: '' @ str_exn e)] s')))"

text \<open>\<open>write\<close> is the outcome of \<open>write_to_google_sheets(self.applications_df)\<close>.\<close>

definition sync_to_google_sheets :: "exn option \<Rightarrow> app \<Rightarrow> exn option \<times> app" where
  "sync_to_google_sheets write s =
     (if \<not> sync_to_google s then (None, s)
      else
        try_except
          (write, emit [WriteSheets (applications_df s)] s)
          (\<lambda>e s'. (None,
             emit [LoggingError (''Error syncing data to Google Sheets: '' @ str_exn e)] s')))"

subsection \<open>The timer: after, after_cancel, schedule_sync, toggle_sync\<close>

text \<open>Tk's \<open>after(ms, callback)\<close> returns a fresh identifier; \<open>after_cancel\<close> removes the timer.\<close>

definition after :: "nat \<Rightarrow> callback \<Rightarrow> app \<Rightarrow> nat \<times> app" where
  "after ms cb s =
     (next_after s,
      s\<lparr>timers := timers s @ [(next_after s, clock s + ms, cb)],
        next_after := Suc (next_after s)\<rparr>)"

definition after_cancel :: "nat \<Rightarrow> app \<Rightarrow> app" where
  "after_cancel tid s = s\<lparr>timers := filter (\<lambda>t. fst t \<noteq> tid) (timers s)\<rparr>"

definition schedule_sync :: "exn + dataframe \<Rightarrow> app \<Rightarrow> exn option \<times> app" where
  "schedule_sync fetch s =
     (case after 60000 Cb_schedule_sync s of
        (tid, s1) \<Rightarrow>
          (let s2 = s1\<lparr>sync_task := Some tid\<rparr>
           in if sync_to_google s2 then sync_from_google_sheets fetch s2 else (None, s2)))"

text \<open>
  \<open>schedule_tasks\<close>, called once by the constructor: with synchronisation enabled it arms
  one Push and starts a chain of ticks (\<open>apply_theme\<close> is presentation).
\<close>

definition schedule_tasks :: "exn + dataframe \<Rightarrow> app \<Rightarrow> exn option \<times> app" where
  "schedule_tasks fetch s =
     (if sync_to_google s then
        (case after 60000 Cb_sync_to_google_sheets s of
           (tid, s1) \<Rightarrow> schedule_sync fetch s1)
      else (None, s))"

text \<open>
  \<open>toggle_sync\<close>; \<open>var\<close> is the value of the Checkbutton variable \<open>google_sync_var\<close>.
  \<open>update_config\<close> writes the configuration file inside its own \<^verbatim>\<open>try ... except\<close> and
  touches none of the fields above.
\<close>

definition toggle_sync :: "bool \<Rightarrow> exn + dataframe \<Rightarrow> exn option \<Rightarrow> app \<Rightarrow> exn option \<times> app" where
  "toggle_sync var fetch write s =
     (let s1 = s\<lparr>sync_to_google := var\<rparr>;
          s2 = (if \<not> sync_to_google s1 then
                  (case sync_task s1 of
                     Some tid \<Rightarrow> (after_cancel tid s1)\<lparr>sync_task := None\<rparr>
                   | None \<Rightarrow> s1)
                else s1)
      in case (if sync_to_google s2 then schedule_sync fetch s2 else (None, s2)) of
           (Some e, s3) \<Rightarrow> (Some e, s3)
         | (None, s3) \<Rightarrow>
             (if sync_to_google s3 then sync_to_google_sheets write s3 else (None, s3)))"

text \<open>
  The event loop. \<open>earliest\<close> picks the pending timer that is due first (the older one
  among equals). \<open>fire\<close> advances the clock to that timer, removes it and runs its
  callback with the outcomes \<open>io\<close> of the helper calls; an exception escaping a callback
  is reported by Tk and the loop goes on. \<open>run\<close> fires one timer per element of its list.
\<close>

fun earliest :: "(nat \<times> nat \<times> callback) list \<Rightarrow> (nat \<times> nat \<times> callback) option" where
  "earliest [] = None"
| "earliest (t # ts) =
     (case earliest ts of
        None \<Rightarrow> Some t
      | Some u \<Rightarrow> if fst (snd t) \<le> fst (snd u) then Some t else Some u)"

definition fire :: "(exn + dataframe) \<times> exn option \<Rightarrow> app \<Rightarrow> app" where
  "fire io s =
     (case earliest (timers s) of
        None \<Rightarrow> s
      | Some (tid, due, cb) \<Rightarrow>
          (let s1 = s\<lparr>timers := filter (\<lambda>t. fst t \<noteq> tid) (timers s),
                      clock := max (clock s) due\<rparr>
           in case cb of
                Cb_schedule_sync \<Rightarrow> snd (schedule_sync (fst io) s1)
              | Cb_sync_to_google_sheets \<Rightarrow> snd (sync_to_google_sheets (snd io) s1)))"

fun run :: "((exn + dataframe) \<times> exn option) list \<Rightarrow> app \<Rightarrow> app" where
  "run [] s = s"
| "run (io # ios) s = run ios (fire io s)"

text \<open>The number of calls of \<open>read_from_google_sheets\<close> (Pulls) and of view refreshes.\<close>

definition pulls :: "app \<Rightarrow> nat" where
  "pulls s = count_list (trace s) ReadSheets"

definition refreshes :: "app \<Rightarrow> nat" where
  "refreshes s = count_list (trace s) PopulateTreeview"

subsection \<open>save_application\<close>

text \<open>
  \<open>str.strip()\<close> removes leading and trailing whitespace; \<open>isspace\<close> is Python's
  \<open>str.isspace\<close> on the code points below 256.
\<close>

definition isspace :: "char \<Rightarrow> bool" where
  "isspace c \<longleftrightarrow> (of_char c :: nat) \<in> {9, 10, 11, 12, 13, 28, 29, 30, 31, 32, 133, 160}"

definition strip :: "string \<Rightarrow> string" where
  "strip s = rev (dropWhile isspace (rev (dropWhile isspace s)))"

definition std_columns :: "string list" where
  "std_columns =
     [''Company'', ''Position'', ''Application Portal URL'', ''Date Applied'', ''Status'']"

text \<open>A fresh \<open>RangeIndex\<close> for a list of rows.\<close>

definition renumber :: "cell list list \<Rightarrow> (int \<times> cell list) list" where
  "renumber rs = zip (map int [0..<length rs]) rs"

text \<open>
  \<^verbatim>\<open>pd.concat([a, b], ignore_index=True)\<close>: the rows of \<open>a\<close> followed by those of \<open>b\<close>
  under a fresh index. When the column labels differ the result has the labels of \<open>a\<close>
  followed by the new ones of \<open>b\<close>, and a cell that a row lacks is NaN; pandas refuses to
  realign a frame whose labels are not unique.

  The dtype of a result column is the common dtype of its two parts, and a column that
  one frame lacks takes the dtype that holds NaN. (The only frame without rows that
  \<open>save_application\<close> passes is \<^verbatim>\<open>pd.DataFrame(columns=...)\<close>, whose columns are \<open>object\<close>
  like those of the new row.)
\<close>

definition common_dtype :: "dtype \<Rightarrow> dtype \<Rightarrow> dtype" where
  "common_dtype x y =
     (if x = y then x
      else if (x = int64 \<and> y = float64) \<or> (x = float64 \<and> y = int64) then float64
      else object)"

definition na_dtype :: "dtype \<Rightarrow> dtype" where
  "na_dtype d = (if d = int64 then float64 else d)"

definition col_dtype :: "dataframe \<Rightarrow> string \<Rightarrow> dtype" where
  "col_dtype df c = (case map_of (zip (columns df) (dtypes df)) c of Some d \<Rightarrow> d | None \<Rightarrow> object)"

definition reindex_row :: "string list \<Rightarrow> string list \<Rightarrow> cell list \<Rightarrow> cell list" where
  "reindex_row cs new r = map (\<lambda>c. row_get cs r c NaN) new"

definition concat_ignore_index :: "dataframe \<Rightarrow> dataframe \<Rightarrow> exn + dataframe" where
  "concat_ignore_index a b =
     (if columns a = columns b then
        Inr \<lparr>columns = columns a,
             dtypes = map (\<lambda>(x, y). common_dtype x y) (zip (dtypes a) (dtypes b)),
             rows = renumber (map snd (rows a) @ map snd (rows b))\<rparr>
      else if distinct (columns a) \<and> distinct (columns b) then
        (let cs = columns a @ filter (\<lambda>c. c \<notin> set (columns a)) (columns b)
         in Inr \<lparr>columns = cs,
                 dtypes = map (\<lambda>c. if c \<in> set (columns a) \<and> c \<in> set (columns b)
                                     then common_dtype (col_dtype a c) (col_dtype b c)
                                     else if c \<in> set (columns a) then na_dtype (col_dtype a c)
                                     else na_dtype (col_dtype b c)) cs,
                 rows = renumber (map (\<lambda>(i, r). reindex_row (columns a) cs r) (rows a) @
                                  map (\<lambda>(i, r). reindex_row (columns b) cs r) (rows b))\<rparr>)
      else Inl (InvalidIndexError ''Reindexing only valid with uniquely valued Index objects''))"

text \<open>
  \<^verbatim>\<open>df[col]\<close> and \<^verbatim>\<open>df[col] = vals\<close> for a label among the columns and values of dtype
  \<open>d\<close>; pandas raises \<open>ValueError\<close> when the number of values is not the number of rows.
\<close>

definition col_pos :: "string list \<Rightarrow> string \<Rightarrow> nat" where
  "col_pos cs col = length (takeWhile (\<lambda>c. c \<noteq> col) cs)"

definition column_values :: "string \<Rightarrow> dataframe \<Rightarrow> cell list" where
  "column_values col df = map (\<lambda>(i, r). row_get (columns df) r col NaN) (rows df)"

definition set_column :: "string \<Rightarrow> dtype \<Rightarrow> cell list \<Rightarrow> dataframe \<Rightarrow> exn + dataframe" where
  "set_column col d vals df =
     (if length vals \<noteq> length (rows df) then
        Inl (ValueError ''Length of values does not match length of index'')
      else
        Inr (df\<lparr>dtypes := (dtypes df)[col_pos (columns df) col := d],
                rows := map (\<lambda>((i, r), v). (i, r[col_pos (columns df) col := v]))
                           (zip (rows df) vals)\<rparr>))"

text \<open>
  \<open>draw_submissions_line_graph\<close> writes to the store before it draws: the column
  \<open>Date Applied\<close> is replaced by its conversion \<^verbatim>\<open>pd.to_datetime(..., errors='coerce')\<close>,
  here the argument \<open>to_datetime\<close>, of dtype \<open>datetime64\<close>. The body is inside
  \<^verbatim>\<open>try ... except Exception\<close>, whose handler shows a message box. The drawing itself is
  presentation.
\<close>

definition draw_submissions_line_graph :: "(cell list \<Rightarrow> cell list) \<Rightarrow> app \<Rightarrow> app" where
  "draw_submissions_line_graph to_datetime s =
     (if ''Date Applied'' \<notin> set (columns (applications_df s)) then s
      else
        (case set_column ''Date Applied'' datetime64
                (to_datetime (column_values ''Date Applied'' (applications_df s)))
                (applications_df s) of
           Inl e \<Rightarrow>
             emit [ShowError ''Error''
                     (''An error occurred while drawing the line graph:'' @ [CHR 0x0A] @ str_exn e)] s
         | Inr df \<Rightarrow> s\<lparr>applications_df := df\<rparr>))"

text \<open>
  \<open>save_application\<close>. \<open>position_in\<close>, \<open>company_in\<close> and \<open>url_in\<close> are the texts of the three
  Entry widgets, \<open>today\<close> is \<^verbatim>\<open>datetime.now().strftime("%Y-%m-%d")\<close>, \<open>save\<close> and \<open>write\<close> are
  the outcomes of \<open>save_applications_to_excel\<close> and \<open>write_to_google_sheets\<close>. An exception
  of \<open>write_to_google_sheets\<close> is caught and shown in a message box; one of
  \<open>save_applications_to_excel\<close> escapes. \<open>draw_status_pie_chart\<close> only reads the store.
\<close>

definition save_application ::
  "string \<Rightarrow> string \<Rightarrow> string \<Rightarrow> string \<Rightarrow> exn option \<Rightarrow> exn option \<Rightarrow>
     (cell list \<Rightarrow> cell list) \<Rightarrow> app \<Rightarrow> exn option \<times> app" where
  "save_application position_in company_in url_in today save write to_datetime s =
     (let position = strip position_in;
          company = strip company_in;
          url = strip url_in;
          date_applied = today;
          status = ''Submitted''
      in if company = [] \<or> position = [] then
           (None, emit [ShowError ''Error'' ''Company and Position are required fields.''] s)
         else
           (let s1 = (if empty_df (applications_df s)
                      then s\<lparr>applications_df := DataFrame_columns std_columns\<rparr> else s);
                new_data = \<lparr>columns = std_columns,
                            dtypes = map (\<lambda>c. object) std_columns,
                            rows = [(0, [Str company, Str position, Str url,
                                         Str date_applied, Str status])]\<rparr>
            in case concat_ignore_index (applications_df s1) new_data of
                 Inl e \<Rightarrow> (Some e, s1)
               | Inr df \<Rightarrow>
                   (let s2 = emit [SaveExcel df] (s1\<lparr>applications_df := df\<rparr>)
                    in case save of
                         Some e \<Rightarrow> (Some e, s2)
                       | None \<Rightarrow>
                           (let s3 = (if sync_to_google s2 then
                                        (case write of
                                           None \<Rightarrow> emit [WriteSheets (applications_df s2)] s2
                                         | Some e \<Rightarrow>
                                             emit [WriteSheets (applications_df s2),
                                                   ShowError ''Error''
                                                     (''Google Sheets sync failed: '' @ str_exn e)] s2)
                                      else s2)
                            in case populate_treeview (applications_df s3) s3 of
                                 (Some e, s4) \<Rightarrow> (Some e, s4)
                               | (None, s4) \<Rightarrow>
                                   (None,
                                    if line_graph_frame s4
                                    then draw_submissions_line_graph to_datetime s4
                                    else s4)))))"

subsection \<open>delete_rows\<close>

text \<open>\<^verbatim>\<open>df.drop(label)\<close> removes every row with that label; \<^verbatim>\<open>reset_index(drop=True)\<close>.\<close>

definition drop_label :: "int \<Rightarrow> dataframe \<Rightarrow> dataframe" where
  "drop_label l df = df\<lparr>rows := filter (\<lambda>(i, r). i \<noteq> l) (rows df)\<rparr>"

definition reset_index :: "dataframe \<Rightarrow> dataframe" where
  "reset_index df = df\<lparr>rows := renumber (map snd (rows df))\<rparr>"

text \<open>The loop over \<open>row_indices\<close>: a label that is not in the index is skipped.\<close>

fun drop_loop :: "int list \<Rightarrow> dataframe \<Rightarrow> dataframe" where
  "drop_loop [] df = df"
| "drop_loop (row_index # rest) df =
     drop_loop rest (if row_index \<in> set (index df) then drop_label row_index df else df)"

text \<open>
  \<open>delete_rows\<close>; \<open>row_ids\<close> are the item ids handed over by the Treeview, \<open>save\<close> is the
  outcome of \<open>save_applications_to_excel\<close>. An exception of \<open>write_to_google_sheets\<close> is
  caught and printed. The last statement reads \<open>self.pie_chart_frame\<close>.
\<close>

definition delete_rows :: "int list \<Rightarrow> exn option \<Rightarrow> app \<Rightarrow> exn option \<times> app" where
  "delete_rows row_ids save s =
     (if row_ids = [] then (None, s)
      else
        (let row_indices = rev (sort row_ids);
             s1 = s\<lparr>applications_df :=
                      reset_index (drop_loop row_indices (applications_df s))\<rparr>
         in case populate_treeview (applications_df s1) s1 of
              (Some e, s2) \<Rightarrow> (Some e, s2)
            | (None, s2) \<Rightarrow>
                (let s3 = (if sync_to_google s2
                           then emit [WriteSheets (applications_df s2)] s2 else s2);
                     s4 = emit [SaveExcel (applications_df s3)] s3
                 in case save of
                      Some e \<Rightarrow> (Some e, s4)
                    | None \<Rightarrow>
                        (if pie_chart_frame s4 then (None, s4)
                         else (Some (AttributeError ''pie_chart_frame''), s4)))))"

subsection \<open>save_edit\<close>


text \<open>
  \<^verbatim>\<open>df.at[label, col] = v\<close>. A label or a column that the frame lacks is added (pandas
  enlarges the frame), the new cells being NaN. The column written to takes the dtype that
  holds \<open>v\<close> beside its old values (\<open>object\<close> for text), and a column that receives a NaN
  cell the dtype that holds NaN.
\<close>

definition value_dtype :: "cell \<Rightarrow> dtype \<Rightarrow> dtype" where
  "value_dtype v d =
     (case v of
        Str t \<Rightarrow> object
      | Num n \<Rightarrow> (if d = int64 \<or> d = float64 then d else object)
      | NaN \<Rightarrow> na_dtype d)"

definition at_set :: "int \<Rightarrow> string \<Rightarrow> cell \<Rightarrow> dataframe \<Rightarrow> dataframe" where
  "at_set l col v df =
     (let df1 = (if col \<in> set (columns df) then df
                 else df\<lparr>columns := columns df @ [col],
                         dtypes := dtypes df @ [float64],
                         rows := map (\<lambda>(i, r). (i, r @ [NaN])) (rows df)\<rparr>);
          df2 = (if l \<in> set (index df1) then df1
                 else df1\<lparr>dtypes := map na_dtype (dtypes df1),
                          rows := rows df1 @ [(l, replicate (length (columns df1)) NaN)]\<rparr>)
      in df2\<lparr>dtypes := map (\<lambda>(j, d). if j = col_pos (columns df2) col then value_dtype v d else d)
                         (enumerate 0 (dtypes df2)),
             rows := map (\<lambda>(i, r). (i, if i = l then r[col_pos (columns df2) col := v] else r))
                        (rows df2)\<rparr>)"


subsection \<open>Example data\<close>

text \<open>
  A store of four records, an application state showing it with synchronisation enabled
  and one armed timer, and a remote table of one record whose URL cell is missing. The
  last two are for the Pull of equal-looking tables: a store whose second Position is the
  number 7 in a column of dtype \<open>object\<close>, and the same table with that column read as
  \<open>int64\<close>; and a state whose Treeview still lists four items while the store holds two
  records, with an edit open.
\<close>

definition abcd_store :: dataframe where
  "abcd_store =
     \<lparr>columns = std_columns,
      dtypes = [object, object, object, object, object],
      rows = [(0, [Str ''A'', Str ''Engineer'', Str '''', Str ''2024-01-05'', Str ''Submitted'']),
              (1, [Str ''B'', Str ''Analyst'', Str '''', Str ''2024-01-06'', Str ''Rejected'']),
              (2, [Str ''C'', Str ''Designer'', Str '''', Str ''2024-01-07'', Str ''Interview'']),
              (3, [Str ''D'', Str ''Manager'', Str '''', Str ''2024-01-08'', Str ''Offer''])]\<rparr>"

definition example_app :: app where
  "example_app =
     \<lparr>applications_df = abcd_store,
      applications_tree = Some (snd (insert_rows std_columns (rows abcd_store) [])),
      edit_entry = None,
      sync_to_google = True,
      sync_task = Some 0,
      timers = [(0, 60000, Cb_schedule_sync)],
      next_after = 1,
      clock = 0,
      pie_chart_frame = True,
      line_graph_frame = True,
      trace = []\<rparr>"

definition remote_example :: dataframe where
  "remote_example =
     \<lparr>columns = std_columns,
      dtypes = [object, object, float64, object, object],
      rows = [(0, [Str ''Acme'', Str ''Engineer'', NaN, Str ''2024-02-01'', Str ''Interview''])]\<rparr>"

definition numbered_store :: dataframe where
  "numbered_store =
     \<lparr>columns = std_columns,
      dtypes = [object, object, object, object, object],
      rows = [(0, [Str ''B'', Num 7, Str '''', Str ''2024-01-06'', Str ''Rejected''])]\<rparr>"

definition numbered_remote :: dataframe where
  "numbered_remote = numbered_store\<lparr>dtypes := [object, int64, object, object, object]\<rparr>"


section \<open>Properties\<close>

subsection \<open>Auxiliary facts\<close>

lemma populate_treeview_trace:
  "trace (snd (populate_treeview df s)) = trace s @ [PopulateTreeview]"
  by (simp add: populate_treeview_def emit_def split: option.split prod.split)

lemma populate_treeview_store:
  "applications_df (snd (populate_treeview df s)) = applications_df s"
  by (simp add: populate_treeview_def emit_def split: option.split prod.split)

lemma populate_treeview_flag:
  "sync_to_google (snd (populate_treeview df s)) = sync_to_google s"
  by (simp add: populate_treeview_def emit_def split: option.split prod.split)

lemma populate_treeview_timers:
  "timers (snd (populate_treeview df s)) = timers s"
  by (simp add: populate_treeview_def emit_def split: option.split prod.split)

lemma empty_df_fillna: "empty_df (fillna v g) = empty_df g"
  by (simp add: empty_df_def fillna_def has_nan_def fill_dtype_def)

lemma equals_iff: "equals a b \<longleftrightarrow> a = b"
  by (auto simp: equals_def)

text \<open>What a Pull leaves behind, field by field.\<close>

lemma sync_from_never_raises: "fst (sync_from_google_sheets fetch s) = None"
  by (auto simp add: sync_from_google_sheets_def try_except_def Let_def
           split: sum.split option.split prod.split)

lemma sync_from_flag:
  "sync_to_google (snd (sync_from_google_sheets fetch s)) = sync_to_google s"
  by (auto simp add: sync_from_google_sheets_def try_except_def Let_def emit_def
                populate_treeview_def
           split: sum.split option.split prod.split)

lemma sync_from_timers:
  "timers (snd (sync_from_google_sheets fetch s)) = timers s"
  by (auto simp add: sync_from_google_sheets_def try_except_def Let_def emit_def
                populate_treeview_def
           split: sum.split option.split prod.split)

lemma sync_from_disabled:
  "\<not> sync_to_google s \<Longrightarrow> sync_from_google_sheets fetch s = (None, s)"
  by (simp add: sync_from_google_sheets_def)

lemma sync_from_pulls:
  "sync_to_google s \<Longrightarrow> pulls (snd (sync_from_google_sheets fetch s)) = Suc (pulls s)"
  by (auto simp add: sync_from_google_sheets_def try_except_def Let_def emit_def pulls_def
                populate_treeview_def
           split: sum.split option.split prod.split)

lemma sync_to_flag:
  "sync_to_google (snd (sync_to_google_sheets write s)) = sync_to_google s"
  by (simp add: sync_to_google_sheets_def try_except_def emit_def split: option.split)

lemma sync_to_pulls:
  "pulls (snd (sync_to_google_sheets write s)) = pulls s"
  by (simp add: sync_to_google_sheets_def try_except_def emit_def pulls_def split: option.split)

lemma schedule_sync_flag:
  "sync_to_google (snd (schedule_sync fetch s)) = sync_to_google s"
  by (simp add: schedule_sync_def after_def Let_def sync_from_flag)

lemma schedule_sync_idle_pulls:
  "\<not> sync_to_google s \<Longrightarrow> pulls (snd (schedule_sync fetch s)) = pulls s"
  by (simp add: schedule_sync_def after_def Let_def pulls_def)

lemma fire_flag: "sync_to_google (fire io s) = sync_to_google s"
  by (simp add: fire_def Let_def schedule_sync_flag sync_to_flag
           split: option.split prod.split callback.split)

lemma pulls_timers_clock [simp]: "pulls (s\<lparr>timers := ts, clock := c\<rparr>) = pulls s"
  by (simp add: pulls_def)

lemma fire_idle_pulls: "\<not> sync_to_google s \<Longrightarrow> pulls (fire io s) = pulls s"
  by (simp add: fire_def Let_def schedule_sync_idle_pulls sync_to_pulls
           split: option.split prod.split callback.split)

lemma run_flag: "sync_to_google (run ios s) = sync_to_google s"
  by (induction ios arbitrary: s) (simp_all add: fire_flag)

lemma run_idle_pulls: "\<not> sync_to_google s \<Longrightarrow> pulls (run ios s) = pulls s"
  by (induction ios arbitrary: s) (simp_all add: fire_flag fire_idle_pulls)

lemma toggle_off_state:
  "snd (toggle_sync False fetch write s) =
     (case sync_task s of
        Some tid \<Rightarrow> s\<lparr>sync_to_google := False, sync_task := None,
                       timers := filter (\<lambda>t. fst t \<noteq> tid) (timers s)\<rparr>
      | None \<Rightarrow> s\<lparr>sync_to_google := False\<rparr>)"
  by (simp add: toggle_sync_def Let_def after_cancel_def split: option.split)

subsection \<open>Pull\<close>

text \<open>
  C4, as the code has it. The comparison is \<open>DataFrame.equals\<close> between the fetched table
  after \<^verbatim>\<open>fillna('')\<close> and the local store. A Pull for which that comparison holds (same
  column labels, same index, same column dtypes, same cells) replaces nothing, refreshes
  nothing and leaves every field of the state as it was; only the call of
  \<open>read_from_google_sheets\<close> is recorded.
\<close>

theorem pull_equal_is_noop:
  assumes "equals (fillna (Str '''') g) (applications_df s)"
  shows "sync_from_google_sheets (Inr g) s =
           (None, if sync_to_google s then emit [ReadSheets] s else s) \<and>
         applications_df (snd (sync_from_google_sheets (Inr g) s)) = applications_df s \<and>
         applications_tree (snd (sync_from_google_sheets (Inr g) s)) = applications_tree s \<and>
         refreshes (snd (sync_from_google_sheets (Inr g) s)) = refreshes s"
  using assms
  by (simp add: sync_from_google_sheets_def try_except_def Let_def emit_def refreshes_def)

theorem pull_equal_is_noop_witness:
  "equals (fillna (Str '''') abcd_store) (applications_df example_app) \<and>
   sync_from_google_sheets (Inr abcd_store) example_app =
     (None, example_app\<lparr>trace := [ReadSheets]\<rparr>)"
proof -
  have h: "equals (fillna (Str '''') abcd_store) (applications_df example_app)"
    by (simp add: equals_def fillna_def has_nan_def fill_dtype_def abcd_store_def example_app_def)
  have "sync_from_google_sheets (Inr abcd_store) example_app =
          (None, if sync_to_google example_app then emit [ReadSheets] example_app
                 else example_app)"
    using pull_equal_is_noop [OF h] by blast
  moreover have "sync_to_google example_app" "trace example_app = []"
    by (simp_all add: example_app_def)
  ultimately show ?thesis using h by (simp add: emit_def)
qed

text \<open>
  The claim C4 as stated fails when the store holds a missing cell: the fetched table has
  the same records in the same order with the same field values, the missing URL
  included, yet after \<^verbatim>\<open>fillna('')\<close> it differs from the store, which is replaced, and the
  view is refreshed.
\<close>

theorem pull_of_equal_table_with_nan_counterexample:
  "sync_to_google (example_app\<lparr>applications_df := remote_example\<rparr>) \<and>
   equals remote_example (applications_df (example_app\<lparr>applications_df := remote_example\<rparr>)) \<and>
   applications_df (snd (sync_from_google_sheets (Inr remote_example)
                           (example_app\<lparr>applications_df := remote_example\<rparr>))) \<noteq>
     applications_df (example_app\<lparr>applications_df := remote_example\<rparr>) \<and>
   refreshes (snd (sync_from_google_sheets (Inr remote_example)
                     (example_app\<lparr>applications_df := remote_example\<rparr>))) =
     refreshes (example_app\<lparr>applications_df := remote_example\<rparr>) + 1"
  by (simp add: sync_from_google_sheets_def try_except_def Let_def emit_def equals_def
                fillna_def has_nan_def fill_dtype_def empty_df_def populate_treeview_def
                refreshes_def remote_example_def example_app_def std_columns_def
           split: prod.split)

text \<open>
  Equal field values do not suffice either: a table whose Position column holds the
  number 7 as \<open>int64\<close> is adopted over a store holding the same cells in a column of dtype
  \<open>object\<close>.
\<close>

lemma pull_of_equal_cells_other_dtype_example:
  "columns numbered_remote = columns numbered_store \<and>
   rows numbered_remote = rows numbered_store \<and>
   \<not> equals (fillna (Str '''') numbered_remote) numbered_store \<and>
   refreshes (snd (sync_from_google_sheets (Inr numbered_remote)
                     (example_app\<lparr>applications_df := numbered_store\<rparr>))) = 1 \<and>
   dtypes (applications_df (snd (sync_from_google_sheets (Inr numbered_remote)
                     (example_app\<lparr>applications_df := numbered_store\<rparr>)))) =
     [object, int64, object, object, object]"
  by (simp add: sync_from_google_sheets_def try_except_def Let_def emit_def equals_def
                fillna_def has_nan_def fill_dtype_def empty_df_def populate_treeview_def
                refreshes_def numbered_remote_def numbered_store_def example_app_def
                std_columns_def
           split: prod.split)

text \<open>
  C10. A Pull that fetched an empty table never replaces the local store: the state is
  unchanged apart from the recorded call, so a non-empty store stays non-empty.
\<close>

theorem pull_empty_remote_keeps_store:
  assumes "empty_df g"
  shows "sync_from_google_sheets (Inr g) s =
           (None, if sync_to_google s then emit [ReadSheets] s else s) \<and>
         applications_df (snd (sync_from_google_sheets (Inr g) s)) = applications_df s \<and>
         (\<not> empty_df (applications_df s) \<longrightarrow>
            \<not> empty_df (applications_df (snd (sync_from_google_sheets (Inr g) s))))"
  using assms
  by (simp add: sync_from_google_sheets_def try_except_def Let_def emit_def empty_df_fillna)

theorem pull_empty_remote_keeps_store_witness:
  "empty_df (DataFrame_columns std_columns) \<and>
   \<not> empty_df (applications_df example_app) \<and>
   applications_df (snd (sync_from_google_sheets (Inr (DataFrame_columns std_columns))
                           example_app)) = abcd_store"
proof -
  have h: "empty_df (DataFrame_columns std_columns)"
    by (simp add: empty_df_def DataFrame_columns_def)
  have "applications_df (snd (sync_from_google_sheets (Inr (DataFrame_columns std_columns))
                                example_app)) = applications_df example_app"
    using pull_empty_remote_keeps_store [OF h] by blast
  moreover have "applications_df example_app = abcd_store"
    by (simp add: example_app_def)
  moreover have "\<not> empty_df abcd_store"
    by (simp add: empty_df_def abcd_store_def std_columns_def)
  ultimately show ?thesis using h by simp
qed

text \<open>
  C1, as the code has it. With synchronisation enabled, a Pull whose fetched table
  (missing cells normalised) is not empty and differs from the local store assigns that
  table to the store once: the store is then structurally equal to it, one call of
  \<open>read_from_google_sheets\<close> is recorded, and the view is refreshed exactly once when the
  Treeview exists. No exception escapes.
\<close>

theorem pull_adopts_nonempty_remote:
  assumes "sync_to_google s"
    and "\<not> empty_df g"
    and "\<not> equals (fillna (Str '''') g) (applications_df s)"
  shows "fst (sync_from_google_sheets (Inr g) s) = None \<and>
         equals (applications_df (snd (sync_from_google_sheets (Inr g) s)))
                (fillna (Str '''') g) \<and>
         pulls (snd (sync_from_google_sheets (Inr g) s)) = pulls s + 1 \<and>
         refreshes (snd (sync_from_google_sheets (Inr g) s)) =
           refreshes s + (if applications_tree s = None then 0 else 1)"
  using assms
  by (auto simp add: sync_from_google_sheets_def try_except_def Let_def emit_def
                     empty_df_fillna refreshes_def pulls_def populate_treeview_def equals_iff
           split: option.split prod.split)

theorem pull_adopts_nonempty_remote_witness:
  "sync_to_google example_app \<and> \<not> empty_df remote_example \<and>
   \<not> equals (fillna (Str '''') remote_example) (applications_df example_app) \<and>
   applications_df (snd (sync_from_google_sheets (Inr remote_example) example_app)) =
     \<lparr>columns = std_columns,
      dtypes = [object, object, object, object, object],
      rows = [(0, [Str ''Acme'', Str ''Engineer'', Str '''', Str ''2024-02-01'',
                   Str ''Interview''])]\<rparr> \<and>
   refreshes (snd (sync_from_google_sheets (Inr remote_example) example_app)) = 1"
proof -
  have h1: "sync_to_google example_app"
    by (simp add: example_app_def)
  have h2: "\<not> empty_df remote_example"
    by (simp add: empty_df_def remote_example_def std_columns_def)
  have h3: "\<not> equals (fillna (Str '''') remote_example) (applications_df example_app)"
    by (simp add: equals_def fillna_def has_nan_def fill_dtype_def remote_example_def example_app_def abcd_store_def)
  have tree: "applications_tree example_app \<noteq> None" and tr: "refreshes example_app = 0"
    by (simp_all add: example_app_def refreshes_def)
  have "equals (applications_df (snd (sync_from_google_sheets (Inr remote_example) example_app)))
               (fillna (Str '''') remote_example)"
    and "refreshes (snd (sync_from_google_sheets (Inr remote_example) example_app)) =
           refreshes example_app + (if applications_tree example_app = None then 0 else 1)"
    using pull_adopts_nonempty_remote [OF h1 h2 h3] by blast+
  then show ?thesis using h1 h2 h3 tree tr
    by (simp add: equals_iff fillna_def has_nan_def fill_dtype_def remote_example_def)
qed

text \<open>
  The claim C1 as stated fails for an empty remote table: the local store of four records
  differs from it and is kept.
\<close>

theorem pull_replaces_with_empty_remote_counterexample:
  "sync_to_google example_app \<and>
   \<not> equals (fillna (Str '''') (DataFrame_columns std_columns)) (applications_df example_app) \<and>
   \<not> equals (applications_df (snd (sync_from_google_sheets
                                     (Inr (DataFrame_columns std_columns)) example_app)))
             (fillna (Str '''') (DataFrame_columns std_columns))"
  by (simp add: sync_from_google_sheets_def try_except_def Let_def emit_def equals_def
                fillna_def has_nan_def fill_dtype_def empty_df_def DataFrame_columns_def std_columns_def example_app_def
                abcd_store_def)

subsection \<open>Disabling synchronisation\<close>

text \<open>
  C5. \<open>toggle_sync\<close> with the Checkbutton off is DisableSync. Whatever the state before
  (a timer armed or not, any pending callbacks), it makes no Pull itself, clears the flag,
  forgets and cancels the armed timer, and afterwards no number of timer firings, with
  any outcomes of the helpers, makes a further Pull: the callbacks that are still pending
  re-arm themselves but test the flag before they fetch.
\<close>

theorem disable_sync_stops_pulls:
  "\<not> sync_to_google (snd (toggle_sync False fetch write s)) \<and>
   sync_task (snd (toggle_sync False fetch write s)) = None \<and>
   (\<forall>tid. sync_task s = Some tid \<longrightarrow>
      tid \<notin> fst ` set (timers (snd (toggle_sync False fetch write s)))) \<and>
   pulls (snd (toggle_sync False fetch write s)) = pulls s \<and>
   pulls (run ios (snd (toggle_sync False fetch write s))) = pulls s"
proof -
  let ?s' = "snd (toggle_sync False fetch write s)"
  have off: "\<not> sync_to_google ?s'"
    by (simp add: toggle_off_state split: option.split)
  have task: "sync_task ?s' = None"
    by (simp add: toggle_off_state split: option.split)
  have cancelled: "\<forall>tid. sync_task s = Some tid \<longrightarrow> tid \<notin> fst ` set (timers ?s')"
    by (auto simp add: toggle_off_state)
  have same: "pulls ?s' = pulls s"
    by (simp add: toggle_off_state pulls_def split: option.split)
  have "pulls (run ios ?s') = pulls ?s'"
    using off by (rule run_idle_pulls)
  with off task cancelled same show ?thesis by simp
qed

theorem disable_sync_stops_pulls_witness:
  "sync_task example_app = Some 0 \<and>
   0 \<notin> fst ` set (timers (snd (toggle_sync False (Inr remote_example) None example_app))) \<and>
   pulls (run [(Inr remote_example, None), (Inr remote_example, None), (Inr remote_example, None)]
             (snd (toggle_sync False (Inr remote_example) None example_app))) = 0"
proof -
  have h: "sync_task example_app = Some 0" and p: "pulls example_app = 0"
    by (simp_all add: example_app_def pulls_def)
  show ?thesis
    using disable_sync_stops_pulls [of "Inr remote_example" None example_app
            "[(Inr remote_example, None), (Inr remote_example, None), (Inr remote_example, None)]"]
          h p
    by simp
qed

subsection \<open>Failures of Pull and Push\<close>

text \<open>
  C6. With synchronisation enabled, an exception raised by \<open>read_from_google_sheets\<close>
  during a Pull or by \<open>write_to_google_sheets\<close> during a Push is caught and passed to
  \<open>logging.error\<close>; nothing else in the state changes, so the flag stays set and the store
  is as before. A timer tick (\<open>schedule_sync\<close>) whose Pull fails has armed the next tick
  60000 ms ahead before fetching, and that next tick fetches again.
\<close>

theorem sync_failure_is_logged_and_retried:
  assumes "sync_to_google s"
  shows "sync_from_google_sheets (Inl e) s =
           (None, emit [ReadSheets,
                        LoggingError (''Error syncing data from Google Sheets: '' @ str_exn e)] s) \<and>
         sync_to_google_sheets (Some e) s =
           (None, emit [WriteSheets (applications_df s),
                        LoggingError (''Error syncing data to Google Sheets: '' @ str_exn e)] s) \<and>
         fst (schedule_sync (Inl e) s) = None \<and>
         sync_to_google (snd (schedule_sync (Inl e) s)) \<and>
         applications_df (snd (schedule_sync (Inl e) s)) = applications_df s \<and>
         sync_task (snd (schedule_sync (Inl e) s)) = Some (next_after s) \<and>
         timers (snd (schedule_sync (Inl e) s)) =
           timers s @ [(next_after s, clock s + 60000, Cb_schedule_sync)] \<and>
         pulls (snd (schedule_sync fetch (snd (schedule_sync (Inl e) s)))) =
           pulls (snd (schedule_sync (Inl e) s)) + 1"
proof -
  have pull: "sync_from_google_sheets (Inl e) s =
           (None, emit [ReadSheets,
                        LoggingError (''Error syncing data from Google Sheets: '' @ str_exn e)] s)"
    using assms by (simp add: sync_from_google_sheets_def try_except_def emit_def)
  have push: "sync_to_google_sheets (Some e) s =
           (None, emit [WriteSheets (applications_df s),
                        LoggingError (''Error syncing data to Google Sheets: '' @ str_exn e)] s)"
    using assms by (simp add: sync_to_google_sheets_def try_except_def emit_def)
  let ?s' = "snd (schedule_sync (Inl e) s)"
  have tick: "schedule_sync (Inl e) s =
      (None, s\<lparr>timers := timers s @ [(next_after s, clock s + 60000, Cb_schedule_sync)],
               next_after := Suc (next_after s),
               sync_task := Some (next_after s),
               trace := trace s @ [ReadSheets,
                 LoggingError (''Error syncing data from Google Sheets: '' @ str_exn e)]\<rparr>)"
    using assms
    by (simp add: schedule_sync_def after_def Let_def sync_from_google_sheets_def
                  try_except_def emit_def)
  have on: "sync_to_google ?s'"
    using assms by (simp add: tick)
  have again: "pulls (snd (schedule_sync fetch ?s')) = pulls ?s' + 1"
  proof -
    have "pulls (snd (schedule_sync fetch ?s')) =
          pulls (snd (sync_from_google_sheets fetch
                   (snd (after 60000 Cb_schedule_sync ?s')\<lparr>sync_task := Some (next_after ?s')\<rparr>)))"
      using on by (simp add: schedule_sync_def after_def Let_def)
    also have "\<dots> = Suc (pulls (snd (after 60000 Cb_schedule_sync ?s')
                                   \<lparr>sync_task := Some (next_after ?s')\<rparr>))"
      using on by (intro sync_from_pulls) (simp add: after_def)
    also have "\<dots> = pulls ?s' + 1"
      by (simp add: after_def pulls_def)
    finally show ?thesis .
  qed
  have quiet: "fst (schedule_sync (Inl e) s) = None"
    and store: "applications_df ?s' = applications_df s"
    and task: "sync_task ?s' = Some (next_after s)"
    and armed: "timers ?s' = timers s @ [(next_after s, clock s + 60000, Cb_schedule_sync)]"
    by (simp_all add: tick)
  from pull push quiet on store task armed again show ?thesis
    by (intro conjI)
qed

theorem sync_failure_is_logged_and_retried_witness:
  "sync_to_google example_app \<and>
   sync_to_google (snd (schedule_sync (Inl (NetworkError ''unreachable'')) example_app)) \<and>
   applications_df (snd (schedule_sync (Inl (NetworkError ''unreachable'')) example_app)) =
     abcd_store \<and>
   timers (snd (schedule_sync (Inl (NetworkError ''unreachable'')) example_app)) =
     [(0, 60000, Cb_schedule_sync), (1, 60000, Cb_schedule_sync)]"
proof -
  have h: "sync_to_google example_app"
    by (simp add: example_app_def)
  have f: "applications_df example_app = abcd_store" "next_after example_app = 1"
          "clock example_app = 0" "timers example_app = [(0, 60000, Cb_schedule_sync)]"
    by (simp_all add: example_app_def)
  show ?thesis
    using sync_failure_is_logged_and_retried [OF h, of "NetworkError ''unreachable''"] h f
    by simp
qed

text \<open>
  A run of the event loop on the example state: the first tick fails to fetch, the tick
  it armed fetches the remote table and adopts it.
\<close>

lemma failed_pull_then_retry_example:
  "applications_df (run [(Inl (NetworkError ''unreachable''), None), (Inr remote_example, None)]
                       example_app) = fillna (Str '''') remote_example \<and>
   pulls (run [(Inl (NetworkError ''unreachable''), None), (Inr remote_example, None)]
             example_app) = 2"
  by (simp add: fire_def schedule_sync_def after_def sync_from_google_sheets_def try_except_def
                populate_treeview_def emit_def Let_def pulls_def equals_def empty_df_def
                fillna_def has_nan_def fill_dtype_def remote_example_def example_app_def abcd_store_def std_columns_def
           split: prod.split)

subsection \<open>Load\<close>

text \<open>
  C8. \<open>load_application_data\<close> never lets an exception escape. An absent, unreadable or
  corrupt file reaches it as the exception raised by \<open>read_applications_from_excel\<close>:
  the exception is passed to \<open>logging.error\<close> and the store becomes the empty frame
  \<open>pd.DataFrame()\<close>. When the helper returns a frame, that frame becomes the store.
\<close>

theorem load_never_raises:
  "fst (load_application_data read s) = None \<and>
   load_application_data (Inl e) s =
     (None, (emit [LoggingError
                     (''Error: Could not read the Excel file from AppData. '' @ str_exn e)] s)
              \<lparr>applications_df := DataFrame\<rparr>) \<and>
   empty_df (applications_df (snd (load_application_data (Inl e) s))) \<and>
   rows (applications_df (snd (load_application_data (Inl e) s))) = [] \<and>
   load_application_data (Inr df) s = (None, s\<lparr>applications_df := df\<rparr>)"
  by (simp add: load_application_data_def try_except_def empty_df_def DataFrame_def emit_def
           split: sum.split)

theorem load_never_raises_witness:
  "load_application_data (Inl (FileNotFoundError ''Applications.xlsx'')) example_app =
     (None, example_app
        \<lparr>trace := [LoggingError
                     ''Error: Could not read the Excel file from AppData. Applications.xlsx''],
         applications_df := \<lparr>columns = [], dtypes = [], rows = []\<rparr>\<rparr>)"
proof -
  have "trace example_app = []"
    by (simp add: example_app_def)
  then show ?thesis
    using load_never_raises [of "Inl (FileNotFoundError ''Applications.xlsx'')" example_app
                                "FileNotFoundError ''Applications.xlsx''" DataFrame]
    by (simp add: emit_def DataFrame_def)
qed

subsection \<open>Update of an unknown id\<close>

text \<open>
  The Treeview only ever shows rows of the store: after \<open>populate_treeview\<close> every item id
  is an index label of the frame shown.
\<close>

lemma insert_rows_items:
  "set (map fst (snd (insert_rows cs rs t))) \<subseteq> set (map fst t) \<union> set (map fst rs)"
  by (induction cs rs t rule: insert_rows.induct) auto

lemma populate_treeview_items:
  assumes "applications_tree s = Some t0"
  shows "\<exists>t. applications_tree (snd (populate_treeview df s)) = Some t \<and>
             set (map fst t) \<subseteq> set (index df)"
proof -
  obtain r t where ins: "insert_rows (columns df) (rows df) [] = (r, t)"
    by (cases "insert_rows (columns df) (rows df) []")
  have "set (map fst t) \<subseteq> set (index df)"
    using insert_rows_items [of "columns df" "rows df" "[]"] ins
    by (simp add: index_def)
  then show ?thesis
    using assms ins by (simp add: populate_treeview_def emit_def)
qed



text \<open>
  The write to the store itself has no such check: \<^verbatim>\<open>df.at[label, col] = v\<close> for a label
  that the frame lacks adds a row with that label.
\<close>

lemma at_set_new_label:
  "l \<notin> set (index df) \<Longrightarrow> index (at_set l col v df) = index df @ [l]"
  by (force simp add: at_set_def Let_def index_def comp_def case_prod_unfold)

lemma at_set_enlarges_example:
  "index (at_set 7 ''Company'' (Str ''Zed'') abcd_store) = [0, 1, 2, 3, 7]"
  by (simp add: at_set_def Let_def index_def abcd_store_def std_columns_def)


subsection \<open>Delete\<close>

lemma drop_loop_columns: "columns (drop_loop ids df) = columns df"
  by (induction ids arbitrary: df) (simp_all add: drop_label_def)

lemma drop_loop_rows:
  "rows (drop_loop ids df) = filter (\<lambda>(i, r). i \<notin> set ids) (rows df)"
proof (induction ids arbitrary: df)
  case Nil
  then show ?case by simp
next
  case (Cons l ids)
  show ?case
  proof (cases "l \<in> set (index df)")
    case True
    then have "rows (drop_loop (l # ids) df) =
        filter (\<lambda>(i, r). i \<notin> set ids) (filter (\<lambda>(i, r). i \<noteq> l) (rows df))"
      by (simp add: Cons.IH drop_label_def del: filter_filter)
    also have "\<dots> = filter (\<lambda>(i, r). i \<notin> set (l # ids)) (rows df)"
      unfolding filter_filter by (intro filter_cong refl) auto
    finally show ?thesis .
  next
    case False
    then have "rows (drop_loop (l # ids) df) = filter (\<lambda>(i, r). i \<notin> set ids) (rows df)"
      by (simp add: Cons.IH)
    also have "\<dots> = filter (\<lambda>(i, r). i \<notin> set (l # ids)) (rows df)"
      using False by (intro filter_cong refl) (force simp add: index_def)
    finally show ?thesis .
  qed
qed

lemma delete_rows_store:
  "row_ids \<noteq> [] \<Longrightarrow>
     applications_df (snd (delete_rows row_ids save s)) =
       reset_index (drop_loop (rev (sort row_ids)) (applications_df s))"
proof -
  assume ne: "row_ids \<noteq> []"
  let ?df = "reset_index (drop_loop (rev (sort row_ids)) (applications_df s))"
  let ?s1 = "s\<lparr>applications_df := ?df\<rparr>"
  obtain r s2 where pop: "populate_treeview ?df ?s1 = (r, s2)"
    by (cases "populate_treeview ?df ?s1")
  have "applications_df s2 = ?df"
    using populate_treeview_store [of ?df ?s1] pop by simp
  then show ?thesis
    using ne pop
    by (cases r; cases save) (simp_all add: delete_rows_def Let_def emit_def)
qed

lemma renumber_fst: "map fst (renumber rs) = map int [0..<length rs]"
  by (simp add: renumber_def)

lemma renumber_snd: "map snd (renumber rs) = rs"
  by (simp add: renumber_def)

lemma survivors_count:
  assumes "map fst rs = map int [0..<n]"
  shows "length (filter (\<lambda>(i, r). i \<notin> S) rs) = n - card (S \<inter> {0..<int n})"
proof -
  have set_ix: "set (map int [0..<n]) = {0..<int n}"
    by (simp add: image_int_atLeastLessThan)
  have "length (filter (\<lambda>(i, r). i \<notin> S) rs) = length (filter (\<lambda>i. i \<notin> S) (map fst rs))"
    by (simp add: filter_map comp_def case_prod_unfold)
  also have "\<dots> = card ({i. i \<notin> S} \<inter> set (map int [0..<n]))"
    unfolding assms by (rule distinct_length_filter) (simp add: distinct_map inj_on_def)
  also have "{i. i \<notin> S} \<inter> set (map int [0..<n]) = {0..<int n} - (S \<inter> {0..<int n})"
    unfolding set_ix by auto
  also have "card \<dots> = card {0..<int n} - card (S \<inter> {0..<int n})"
    by (rule card_Diff_subset) auto
  finally show ?thesis by simp
qed

text \<open>
  C2. For a store whose ids are the contiguous \<open>0..n-1\<close> and any list of ids handed to
  \<open>delete_rows\<close>, the store afterwards has the same columns, holds exactly the records
  whose id is not among those given, in their original order, and numbers them
  \<open>0..k-1\<close> with no gap. The number \<open>k\<close> of survivors is \<open>n\<close> less the number of given ids
  that are ids of the store, hence \<open>n - |S|\<close> when every given id is one. This holds
  whatever the outcome of saving, pushing and refreshing.
\<close>

theorem delete_rows_renumbers:
  assumes "index (applications_df s) = map int [0..<n]"
  shows "columns (applications_df (snd (delete_rows row_ids save s))) =
           columns (applications_df s) \<and>
         map snd (rows (applications_df (snd (delete_rows row_ids save s)))) =
           map snd (filter (\<lambda>(i, r). i \<notin> set row_ids) (rows (applications_df s))) \<and>
         index (applications_df (snd (delete_rows row_ids save s))) =
           map int [0..<n - card (set row_ids \<inter> {0..<int n})] \<and>
         (set row_ids \<subseteq> set (index (applications_df s)) \<longrightarrow>
            index (applications_df (snd (delete_rows row_ids save s))) =
              map int [0..<n - card (set row_ids)])"
proof -
  let ?df = "applications_df s"
  let ?df' = "applications_df (snd (delete_rows row_ids save s))"
  let ?keep = "filter (\<lambda>(i, r). i \<notin> set row_ids) (rows ?df)"
  have ix: "map fst (rows ?df) = map int [0..<n]"
    using assms by (simp add: index_def)
  have count: "length ?keep = n - card (set row_ids \<inter> {0..<int n})"
    using ix by (rule survivors_count)
  have cols: "columns ?df' = columns ?df"
    and cells: "map snd (rows ?df') = map snd ?keep"
    and labels: "index ?df' = map int [0..<length ?keep]"
  proof -
    show "columns ?df' = columns ?df"
      by (cases "row_ids = []")
         (simp_all add: delete_rows_store reset_index_def drop_loop_columns, simp add: delete_rows_def)
    show "map snd (rows ?df') = map snd ?keep"
    proof (cases "row_ids = []")
      case True
      then show ?thesis by (simp add: delete_rows_def)
    next
      case False
      then show ?thesis
        by (simp add: delete_rows_store reset_index_def renumber_snd drop_loop_rows)
    qed
    show "index ?df' = map int [0..<length ?keep]"
    proof (cases "row_ids = []")
      case True
      then have "index ?df' = map int [0..<n]" and "length ?keep = length (rows ?df)"
        using assms by (simp_all add: delete_rows_def)
      moreover have "length (rows ?df) = n"
        using ix by (metis length_map length_upt minus_nat.diff_0)
      ultimately show ?thesis by simp
    next
      case False
      then show ?thesis
        by (simp add: index_def delete_rows_store reset_index_def renumber_fst drop_loop_rows)
    qed
  qed
  have inside: "set row_ids \<subseteq> set (index ?df) \<Longrightarrow> set row_ids \<inter> {0..<int n} = set row_ids"
  proof -
    assume sub: "set row_ids \<subseteq> set (index ?df)"
    have "set (index ?df) \<subseteq> {0..<int n}"
      unfolding assms by auto
    with sub show ?thesis by auto
  qed
  show ?thesis
    using cols cells labels count inside by simp
qed

theorem delete_rows_renumbers_witness:
  "index (applications_df example_app) = map int [0..<4] \<and>
   set [1] \<subseteq> set (index (applications_df example_app)) \<and>
   index (applications_df (snd (delete_rows [1] None example_app))) = [0, 1, 2] \<and>
   rows (applications_df (snd (delete_rows [1] None example_app))) =
     [(0, [Str ''A'', Str ''Engineer'', Str '''', Str ''2024-01-05'', Str ''Submitted'']),
      (1, [Str ''C'', Str ''Designer'', Str '''', Str ''2024-01-07'', Str ''Interview'']),
      (2, [Str ''D'', Str ''Manager'', Str '''', Str ''2024-01-08'', Str ''Offer''])]"
proof -
  have ix: "index (applications_df example_app) = [0, 1, 2, 3]"
    by (simp add: example_app_def abcd_store_def index_def)
  have up: "map int [0..<4] = [0, 1, 2, 3]" "map int [0..<3] = [0, 1, 2]"
    by (simp_all add: eval_nat_numeral)
  have h: "index (applications_df example_app) = map int [0..<4]"
    by (simp add: ix up)
  have sub: "set [1] \<subseteq> set (index (applications_df example_app))"
    by (simp add: ix)
  have "index (applications_df (snd (delete_rows [1] None example_app))) =
          map int [0..<4 - card (set [1::int])]"
    using delete_rows_renumbers [OF h, of "[1]" None] sub by blast
  then have labels: "index (applications_df (snd (delete_rows [1] None example_app))) = [0, 1, 2]"
    by (simp add: up)
  have cells: "rows (applications_df (snd (delete_rows [1] None example_app))) =
     [(0, [Str ''A'', Str ''Engineer'', Str '''', Str ''2024-01-05'', Str ''Submitted'']),
      (1, [Str ''C'', Str ''Designer'', Str '''', Str ''2024-01-07'', Str ''Interview'']),
      (2, [Str ''D'', Str ''Manager'', Str '''', Str ''2024-01-08'', Str ''Offer''])]"
    by (simp add: delete_rows_store reset_index_def renumber_def drop_label_def index_def
                  example_app_def abcd_store_def)
  from h sub labels cells show ?thesis by (intro conjI)
qed

subsection \<open>Add\<close>

lemma strip_blank:
  assumes "\<forall>c \<in> set x. isspace c"
  shows "strip x = []"
  using assms by (auto simp add: strip_def dest: set_dropWhileD)

lemma strip_Nil_blank:
  assumes "strip x = []"
  shows "\<forall>c \<in> set x. isspace c"
proof -
  have all: "\<forall>c \<in> set (dropWhile isspace x). isspace c"
    using assms by (simp add: strip_def dropWhile_eq_Nil_conv)
  have "dropWhile isspace x = []"
  proof (rule ccontr)
    assume ne: "dropWhile isspace x \<noteq> []"
    then have "\<not> isspace (hd (dropWhile isspace x))"
      by (rule hd_dropWhile)
    moreover have "hd (dropWhile isspace x) \<in> set (dropWhile isspace x)"
      using ne by simp
    ultimately show False
      using all by blast
  qed
  then show ?thesis
    by (simp add: dropWhile_eq_Nil_conv)
qed

lemma strip_ends:
  assumes "strip x \<noteq> []"
  shows "\<not> isspace (hd (strip x)) \<and> \<not> isspace (last (strip x))"
proof -
  let ?ys = "dropWhile isspace x"
  let ?zs = "dropWhile isspace (rev ?ys)"
  have zs: "?zs \<noteq> []"
    using assms by (simp add: strip_def)
  have ys: "?ys \<noteq> []"
  proof
    assume "?ys = []"
    then have "dropWhile isspace (rev ?ys) = dropWhile isspace (rev [])"
      by (rule arg_cong)
    with zs show False by simp
  qed
  have "last (strip x) = hd ?zs"
    using zs by (simp add: strip_def last_rev)
  moreover have "\<not> isspace (hd ?zs)"
    using zs by (rule hd_dropWhile)
  moreover have "hd (strip x) = hd ?ys"
  proof -
    have a: "rev (takeWhile isspace (rev ?ys) @ ?zs) =
             rev ?zs @ rev (takeWhile isspace (rev ?ys))"
      by (rule rev_append)
    have b: "rev (takeWhile isspace (rev ?ys) @ ?zs) = ?ys"
      by simp
    have "strip x @ rev (takeWhile isspace (rev ?ys)) = ?ys"
      unfolding strip_def by (rule trans [OF a [symmetric] b])
    then have "hd (strip x @ rev (takeWhile isspace (rev ?ys))) = hd ?ys"
      by (rule arg_cong)
    then show ?thesis
      using assms by simp
  qed
  moreover have "\<not> isspace (hd ?ys)"
    using ys by (rule hd_dropWhile)
  ultimately show ?thesis by simp
qed

lemma save_application_rejects:
  "strip company_in = [] \<or> strip position_in = [] \<Longrightarrow>
     save_application position_in company_in url_in today save write to_datetime s =
       (None, emit [ShowError ''Error'' ''Company and Position are required fields.''] s)"
  by (auto simp add: save_application_def Let_def)

text \<open>Replacing one cell of a row leaves the cells under the other labels alone.\<close>

lemma map_of_zip_update:
  "p < length cs \<Longrightarrow> k \<noteq> cs ! p \<Longrightarrow> map_of (zip cs (r[p := v])) k = map_of (zip cs r) k"
proof (induction cs arbitrary: r p)
  case Nil
  then show ?case by simp
next
  case (Cons c cs')
  show ?case
  proof (cases r)
    case Nil
    then show ?thesis by simp
  next
    case (Cons x xs)
    show ?thesis
    proof (cases p)
      case 0
      then show ?thesis
        using Cons Cons.prems by simp
    next
      case (Suc q)
      then have "map_of (zip cs' (xs[q := v])) k = map_of (zip cs' xs) k"
        using Cons.prems by (intro Cons.IH) simp_all
      then show ?thesis
        using Cons Suc by simp
    qed
  qed
qed

lemma row_get_other_column:
  "col \<noteq> ''Date Applied'' \<Longrightarrow>
     row_get std_columns (r[col_pos std_columns ''Date Applied'' := v]) col d =
     row_get std_columns r col d"
proof -
  assume ne: "col \<noteq> ''Date Applied''"
  have pos: "col_pos std_columns ''Date Applied'' = 3"
    by (simp add: col_pos_def std_columns_def)
  have "map_of (zip std_columns (r[3 := v])) col = map_of (zip std_columns r) col"
    using ne by (intro map_of_zip_update) (simp_all add: std_columns_def)
  then show ?thesis
    by (simp add: row_get_def pos)
qed

lemma set_column_date_other:
  assumes "columns df = std_columns"
    and "set_column ''Date Applied'' d vals df = Inr df'"
    and "col \<noteq> ''Date Applied''"
  shows "columns df' = std_columns \<and> index df' = index df \<and>
         column_values col df' = column_values col df"
proof -
  have len: "length vals = length (rows df)"
    using assms(2) by (simp add: set_column_def split: if_splits)
  have df': "df' = df\<lparr>dtypes := (dtypes df)[col_pos std_columns ''Date Applied'' := d],
                        rows := map (\<lambda>((i, r), v).
                 (i, r[col_pos std_columns ''Date Applied'' := v])) (zip (rows df) vals)\<rparr>"
    using assms(1,2) by (simp add: set_column_def split: if_splits)
  have "index df' = map fst (map fst (zip (rows df) vals))"
    by (simp add: df' index_def comp_def case_prod_unfold)
  then have ix: "index df' = index df"
    using len by (simp add: index_def)
  have "column_values col df' =
        map (\<lambda>(i, r). row_get std_columns r col NaN) (map fst (zip (rows df) vals))"
    using assms(1,3)
    by (simp add: df' column_values_def comp_def case_prod_unfold row_get_other_column)
  then have "column_values col df' = column_values col df"
    using len assms(1) by (simp add: column_values_def)
  then show ?thesis
    using ix assms(1) by (simp add: df')
qed

text \<open>
  The frame that \<open>pd.concat\<close> builds in \<open>save_application\<close> when the store has the five
  standard columns or no rows.
\<close>

lemma concat_new_row:
  assumes "columns df = std_columns \<or> rows df = []"
  shows "\<exists>d. concat_ignore_index (if empty_df df then DataFrame_columns std_columns else df)
                \<lparr>columns = std_columns, dtypes = ds, rows = [(0, new)]\<rparr> = Inr d \<and>
             columns d = std_columns \<and>
             rows d = renumber (map snd (rows df) @ [new])"
proof -
  have "std_columns \<noteq> []"
    by (simp add: std_columns_def)
  then show ?thesis
    using assms
    by (auto simp add: concat_ignore_index_def empty_df_def DataFrame_columns_def)
qed

lemma appended_frame:
  assumes "columns df = std_columns \<or> rows df = []"
    and "columns d = std_columns"
    and "rows d = renumber (map snd (rows df) @ [new])"
  shows "index d = map int [0..<length (rows df)] @ [int (length (rows df))] \<and>
         column_values col d = column_values col df @ [row_get std_columns new col NaN]"
proof -
  have "map (\<lambda>(i, r). row_get std_columns r col NaN) (renumber (map snd (rows df) @ [new])) =
        map (\<lambda>r. row_get std_columns r col NaN) (map snd (renumber (map snd (rows df) @ [new])))"
    by (simp add: comp_def case_prod_unfold)
  also have "\<dots> = map (\<lambda>r. row_get std_columns r col NaN) (map snd (rows df) @ [new])"
    by (simp only: renumber_snd)
  also have "\<dots> = column_values col df @ [row_get std_columns new col NaN]"
    using assms(1) by (auto simp add: column_values_def comp_def case_prod_unfold)
  finally show ?thesis
    using assms(2,3) by (simp add: index_def renumber_fst column_values_def)
qed

text \<open>
  The store after a \<open>save_application\<close> that passed validation, whatever the outcomes of
  saving, pushing, refreshing and drawing.
\<close>

lemma save_application_appends:
  assumes schema: "columns (applications_df s) = std_columns \<or> rows (applications_df s) = []"
    and ok: "strip company_in \<noteq> []" "strip position_in \<noteq> []"
    and col: "col \<noteq> ''Date Applied''"
  shows "columns (applications_df
           (snd (save_application position_in company_in url_in today save write to_datetime s))) =
           std_columns \<and>
         index (applications_df
           (snd (save_application position_in company_in url_in today save write to_datetime s))) =
           map int [0..<length (rows (applications_df s))] @ [int (length (rows (applications_df s)))] \<and>
         column_values col (applications_df
           (snd (save_application position_in company_in url_in today save write to_datetime s))) =
           column_values col (applications_df s) @
             [row_get std_columns
                [Str (strip company_in), Str (strip position_in), Str (strip url_in),
                 Str today, Str ''Submitted''] col NaN]"
proof -
  let ?new = "[Str (strip company_in), Str (strip position_in), Str (strip url_in),
               Str today, Str ''Submitted'']"
  let ?new_data = "\<lparr>columns = std_columns, dtypes = map (\<lambda>c. object) std_columns,
                    rows = [(0, ?new)]\<rparr>"
  let ?res = "applications_df
           (snd (save_application position_in company_in url_in today save write to_datetime s))"
  let ?s1 = "if empty_df (applications_df s)
             then s\<lparr>applications_df := DataFrame_columns std_columns\<rparr> else s"
  obtain df1 where cat0: "concat_ignore_index
        (if empty_df (applications_df s) then DataFrame_columns std_columns
         else applications_df s) ?new_data = Inr df1"
    and c1: "columns df1 = std_columns"
    and r1: "rows df1 = renumber (map snd (rows (applications_df s)) @ [?new])"
    using concat_new_row [OF schema, of "map (\<lambda>c. object) std_columns" ?new] by blast
  have cat: "concat_ignore_index (applications_df ?s1) ?new_data = Inr df1"
    using cat0 by (cases "empty_df (applications_df s)") simp_all
  have good: "\<And>d. d = df1 \<or> (\<exists>vals. set_column ''Date Applied'' datetime64 vals df1 = Inr d) \<Longrightarrow>
       columns d = std_columns \<and>
       index d = map int [0..<length (rows (applications_df s))] @
                   [int (length (rows (applications_df s)))] \<and>
       column_values col d = column_values col (applications_df s) @
                               [row_get std_columns ?new col NaN]"
  proof -
    fix d
    assume "d = df1 \<or> (\<exists>vals. set_column ''Date Applied'' datetime64 vals df1 = Inr d)"
    then show "columns d = std_columns \<and>
       index d = map int [0..<length (rows (applications_df s))] @
                   [int (length (rows (applications_df s)))] \<and>
       column_values col d = column_values col (applications_df s) @
                               [row_get std_columns ?new col NaN]"
    proof
      assume "d = df1"
      then show ?thesis
        using appended_frame [OF schema c1 r1, of col] c1 by simp
    next
      assume "\<exists>vals. set_column ''Date Applied'' datetime64 vals df1 = Inr d"
      then obtain vals where sc: "set_column ''Date Applied'' datetime64 vals df1 = Inr d"
        by blast
      from set_column_date_other [OF c1 sc col] appended_frame [OF schema c1 r1, of col]
      show ?thesis by simp
    qed
  qed
  have "?res = df1 \<or> (\<exists>vals. set_column ''Date Applied'' datetime64 vals df1 = Inr ?res)"
  proof -
    let ?s2 = "emit [SaveExcel df1] (?s1\<lparr>applications_df := df1\<rparr>)"
    let ?s3 = "if sync_to_google ?s2 then
                 (case write of
                    None \<Rightarrow> emit [WriteSheets (applications_df ?s2)] ?s2
                  | Some e \<Rightarrow>
                      emit [WriteSheets (applications_df ?s2),
                            ShowError ''Error'' (''Google Sheets sync failed: '' @ str_exn e)] ?s2)
               else ?s2"
    have s3: "applications_df ?s3 = df1"
      by (simp add: emit_def split: option.split)
    obtain r s4 where pop: "populate_treeview (applications_df ?s3) ?s3 = (r, s4)"
      by (cases "populate_treeview (applications_df ?s3) ?s3")
    have s4: "applications_df s4 = df1"
      using populate_treeview_store [of "applications_df ?s3" ?s3] pop s3 by simp
    have draw: "applications_df (draw_submissions_line_graph to_datetime s4) = df1 \<or>
          (\<exists>vals. set_column ''Date Applied'' datetime64 vals df1 =
                    Inr (applications_df (draw_submissions_line_graph to_datetime s4)))"
      by (cases "set_column ''Date Applied'' datetime64
                   (to_datetime (column_values ''Date Applied'' df1)) df1")
         (auto simp add: draw_submissions_line_graph_def s4 emit_def)
    have unfold: "save_application position_in company_in url_in today save write to_datetime s =
          (case save of
             Some e \<Rightarrow> (Some e, ?s2)
           | None \<Rightarrow>
               (case r of
                  Some e \<Rightarrow> (Some e, s4)
                | None \<Rightarrow> (None, if line_graph_frame s4
                                  then draw_submissions_line_graph to_datetime s4 else s4)))"
      unfolding save_application_def Let_def
      by (simp only: ok cat pop simp_thms if_False sum.case prod.case)
    show ?thesis
    proof (cases save)
      case (Some e)
      show ?thesis
        using unfold Some by (simp add: emit_def)
    next
      case None
      show ?thesis
        using unfold None s4 draw by (cases r) auto
    qed
  qed
  then show ?thesis
    by (rule good)
qed

text \<open>
  C3, as the code has it. The fields are stripped of surrounding whitespace first. When
  the stripped Company or Position is empty, \<open>save_application\<close> shows the error box
  ``Company and Position are required fields.'' and returns with the state otherwise
  unchanged. When both are non-empty, and the store has no rows or the five standard
  columns, the store afterwards has the standard columns, the ids \<open>0..n\<close> where \<open>n\<close> was
  the number of records, and in the columns Company, Position, Application Portal URL and
  Status the old values followed by the stripped Company, Position and URL and by
  \<open>Submitted\<close>: the new record is last and has id \<open>n\<close>. This holds whatever the outcome of
  saving, pushing and refreshing.
\<close>

theorem add_appends_valid_record:
  assumes "columns (applications_df s) = std_columns \<or> rows (applications_df s) = []"
  shows "(strip company_in = [] \<or> strip position_in = [] \<longrightarrow>
            save_application position_in company_in url_in today save write to_datetime s =
              (None, emit [ShowError ''Error''
                             ''Company and Position are required fields.''] s)) \<and>
         (strip company_in \<noteq> [] \<and> strip position_in \<noteq> [] \<longrightarrow>
            columns (applications_df (snd (save_application position_in company_in url_in
                       today save write to_datetime s))) = std_columns \<and>
            index (applications_df (snd (save_application position_in company_in url_in
                     today save write to_datetime s))) =
              map int [0..<length (rows (applications_df s))] @
                [int (length (rows (applications_df s)))] \<and>
            column_values ''Company'' (applications_df (snd (save_application position_in
                company_in url_in today save write to_datetime s))) =
              column_values ''Company'' (applications_df s) @ [Str (strip company_in)] \<and>
            column_values ''Position'' (applications_df (snd (save_application position_in
                company_in url_in today save write to_datetime s))) =
              column_values ''Position'' (applications_df s) @ [Str (strip position_in)] \<and>
            column_values ''Application Portal URL'' (applications_df (snd (save_application
                position_in company_in url_in today save write to_datetime s))) =
              column_values ''Application Portal URL'' (applications_df s) @
                [Str (strip url_in)] \<and>
            column_values ''Status'' (applications_df (snd (save_application position_in
                company_in url_in today save write to_datetime s))) =
              column_values ''Status'' (applications_df s) @ [Str ''Submitted''])"
proof (intro conjI impI)
  assume "strip company_in = [] \<or> strip position_in = []"
  then show "save_application position_in company_in url_in today save write to_datetime s =
              (None, emit [ShowError ''Error''
                             ''Company and Position are required fields.''] s)"
    by (rule save_application_rejects)
next
  assume ok: "strip company_in \<noteq> [] \<and> strip position_in \<noteq> []"
  let ?df' = "applications_df (snd (save_application position_in company_in url_in
                today save write to_datetime s))"
  from ok have okc: "strip company_in \<noteq> []" and okp: "strip position_in \<noteq> []"
    by simp_all
  note app = save_application_appends [OF assms okc okp,
               of _ "url_in" "today" "save" "write" "to_datetime"]
  show "columns ?df' = std_columns"
    using app [of "''Company''"] by simp
  show "index ?df' = map int [0..<length (rows (applications_df s))] @
                       [int (length (rows (applications_df s)))]"
    using app [of "''Company''"] by simp
  show "column_values ''Company'' ?df' =
          column_values ''Company'' (applications_df s) @ [Str (strip company_in)]"
    using app [of "''Company''"] by (simp add: row_get_def std_columns_def)
  show "column_values ''Position'' ?df' =
          column_values ''Position'' (applications_df s) @ [Str (strip position_in)]"
    using app [of "''Position''"] by (simp add: row_get_def std_columns_def)
  show "column_values ''Application Portal URL'' ?df' =
          column_values ''Application Portal URL'' (applications_df s) @ [Str (strip url_in)]"
    using app [of "''Application Portal URL''"] by (simp add: row_get_def std_columns_def)
  show "column_values ''Status'' ?df' =
          column_values ''Status'' (applications_df s) @ [Str ''Submitted'']"
    using app [of "''Status''"] by (simp add: row_get_def std_columns_def)
qed

theorem add_appends_valid_record_witness:
  "strip '' Acme'' = ''Acme'' \<and> strip ''Dev '' = ''Dev'' \<and>
   index (applications_df (snd (save_application ''Dev '' '' Acme'' '''' ''2024-03-01''
            None None (\<lambda>vs. vs) example_app))) = [0, 1, 2, 3, 4] \<and>
   column_values ''Company'' (applications_df (snd (save_application ''Dev '' '' Acme'' ''''
            ''2024-03-01'' None None (\<lambda>vs. vs) example_app))) =
     [Str ''A'', Str ''B'', Str ''C'', Str ''D'', Str ''Acme''] \<and>
   column_values ''Status'' (applications_df (snd (save_application ''Dev '' '' Acme'' ''''
            ''2024-03-01'' None None (\<lambda>vs. vs) example_app))) =
     [Str ''Submitted'', Str ''Rejected'', Str ''Interview'', Str ''Offer'', Str ''Submitted'']"
proof -
  have h: "columns (applications_df example_app) = std_columns \<or>
           rows (applications_df example_app) = []"
    by (simp add: example_app_def abcd_store_def)
  have c: "strip '' Acme'' = ''Acme''" and p: "strip ''Dev '' = ''Dev''"
    by (simp_all add: strip_def isspace_def)
  have n: "length (rows (applications_df example_app)) = 4"
    and old: "column_values ''Company'' (applications_df example_app) =
                [Str ''A'', Str ''B'', Str ''C'', Str ''D'']"
             "column_values ''Status'' (applications_df example_app) =
                [Str ''Submitted'', Str ''Rejected'', Str ''Interview'', Str ''Offer'']"
    by (simp_all add: example_app_def abcd_store_def column_values_def row_get_def
                      std_columns_def)
  have up: "map int [0..<4] = [0, 1, 2, 3]"
    by (simp add: eval_nat_numeral)
  show ?thesis
    using add_appends_valid_record [OF h, of "'' Acme''" "''Dev ''" "''''" "''2024-03-01''"
            None None "\<lambda>vs. vs"]
    by (simp add: c p n old up)
qed

text \<open>
  The claim C3 as stated fails for a Company that is not empty but blank: the record is
  rejected and the store is left as it was.
\<close>

theorem add_rejects_blank_company_counterexample:
  "'' '' \<noteq> [] \<and> ''Dev'' \<noteq> [] \<and>
   save_application ''Dev'' '' '' '''' ''2024-03-01'' None None (\<lambda>vs. vs) example_app =
     (None, emit [ShowError ''Error'' ''Company and Position are required fields.'']
              example_app) \<and>
   applications_df (snd (save_application ''Dev'' '' '' '''' ''2024-03-01'' None None
                           (\<lambda>vs. vs) example_app)) = applications_df example_app"
proof -
  have "strip '' '' = []"
    by (simp add: strip_def isspace_def)
  then have "save_application ''Dev'' '' '' '''' ''2024-03-01'' None None (\<lambda>vs. vs) example_app =
     (None, emit [ShowError ''Error'' ''Company and Position are required fields.'']
              example_app)"
    by (intro save_application_rejects) simp
  then show ?thesis
    by (simp add: emit_def)
qed

text \<open>
  C9. \<open>save_application\<close> strips Company, Position and URL before it validates and stores.
  A Company or Position made of whitespace only is rejected with the same result as an
  empty one. When a record is stored, its Company, Position and URL are the stripped
  texts, and a stripped text is empty or neither begins nor ends with whitespace.
\<close>

theorem add_strips_whitespace:
  "((\<forall>c \<in> set company_in. isspace c) \<or> (\<forall>c \<in> set position_in. isspace c) \<longrightarrow>
      save_application position_in company_in url_in today save write to_datetime s =
        (None, emit [ShowError ''Error'' ''Company and Position are required fields.''] s)) \<and>
   ((\<forall>c \<in> set company_in. isspace c) \<longrightarrow>
      save_application position_in company_in url_in today save write to_datetime s =
      save_application position_in [] url_in today save write to_datetime s) \<and>
   ((\<forall>c \<in> set position_in. isspace c) \<longrightarrow>
      save_application position_in company_in url_in today save write to_datetime s =
      save_application [] company_in url_in today save write to_datetime s) \<and>
   ((columns (applications_df s) = std_columns \<or> rows (applications_df s) = []) \<and>
    strip company_in \<noteq> [] \<and> strip position_in \<noteq> [] \<longrightarrow>
      last (column_values ''Company'' (applications_df (snd (save_application position_in
              company_in url_in today save write to_datetime s)))) = Str (strip company_in) \<and>
      last (column_values ''Position'' (applications_df (snd (save_application position_in
              company_in url_in today save write to_datetime s)))) = Str (strip position_in) \<and>
      last (column_values ''Application Portal URL'' (applications_df (snd (save_application
              position_in company_in url_in today save write to_datetime s)))) =
        Str (strip url_in)) \<and>
   (strip x = [] \<or> (\<not> isspace (hd (strip x)) \<and> \<not> isspace (last (strip x))))"
proof (intro conjI impI)
  assume "(\<forall>c \<in> set company_in. isspace c) \<or> (\<forall>c \<in> set position_in. isspace c)"
  then have "strip company_in = [] \<or> strip position_in = []"
    using strip_blank by blast
  then show "save_application position_in company_in url_in today save write to_datetime s =
        (None, emit [ShowError ''Error'' ''Company and Position are required fields.''] s)"
    by (rule save_application_rejects)
next
  assume "\<forall>c \<in> set company_in. isspace c"
  then have "strip company_in = []"
    by (rule strip_blank)
  moreover have "strip [] = []"
    by (simp add: strip_def)
  ultimately show "save_application position_in company_in url_in today save write to_datetime s =
      save_application position_in [] url_in today save write to_datetime s"
    by (simp add: save_application_rejects)
next
  assume "\<forall>c \<in> set position_in. isspace c"
  then have "strip position_in = []"
    by (rule strip_blank)
  moreover have "strip [] = []"
    by (simp add: strip_def)
  ultimately show "save_application position_in company_in url_in today save write to_datetime s =
      save_application [] company_in url_in today save write to_datetime s"
    by (simp add: save_application_rejects)
next
  assume h: "(columns (applications_df s) = std_columns \<or> rows (applications_df s) = []) \<and>
             strip company_in \<noteq> [] \<and> strip position_in \<noteq> []"
  from h have schema: "columns (applications_df s) = std_columns \<or> rows (applications_df s) = []"
    and okc: "strip company_in \<noteq> []" and okp: "strip position_in \<noteq> []"
    by simp_all
  note app = save_application_appends [OF schema okc okp,
               of _ "url_in" "today" "save" "write" "to_datetime"]
  show "last (column_values ''Company'' (applications_df (snd (save_application position_in
              company_in url_in today save write to_datetime s)))) = Str (strip company_in)"
    using app [of "''Company''"] by (simp add: row_get_def std_columns_def)
  show "last (column_values ''Position'' (applications_df (snd (save_application position_in
              company_in url_in today save write to_datetime s)))) = Str (strip position_in)"
    using app [of "''Position''"] by (simp add: row_get_def std_columns_def)
  show "last (column_values ''Application Portal URL'' (applications_df (snd (save_application
              position_in company_in url_in today save write to_datetime s)))) =
        Str (strip url_in)"
    using app [of "''Application Portal URL''"] by (simp add: row_get_def std_columns_def)
next
  show "strip x = [] \<or> (\<not> isspace (hd (strip x)) \<and> \<not> isspace (last (strip x)))"
    using strip_ends [of x] by blast
qed

theorem add_strips_whitespace_witness:
  "isspace (CHR '' '') \<and>
   save_application ''Dev'' ''   '' ''x'' ''2024-03-01'' None None (\<lambda>vs. vs) example_app =
   save_application ''Dev'' [] ''x'' ''2024-03-01'' None None (\<lambda>vs. vs) example_app \<and>
   strip '' Acme Ltd  '' = ''Acme Ltd'' \<and>
   last (column_values ''Company'' (applications_df (snd (save_application ''Dev''
           '' Acme Ltd  '' '' http://a.example '' ''2024-03-01'' None None (\<lambda>vs. vs)
           example_app)))) = Str ''Acme Ltd'' \<and>
   last (column_values ''Application Portal URL'' (applications_df (snd (save_application
           ''Dev'' '' Acme Ltd  '' '' http://a.example '' ''2024-03-01'' None None (\<lambda>vs. vs)
           example_app)))) = Str ''http://a.example''"
proof -
  have blank: "\<forall>c \<in> set ''   ''. isspace c"
    by (simp add: isspace_def)
  have h: "columns (applications_df example_app) = std_columns \<or>
           rows (applications_df example_app) = []"
    by (simp add: example_app_def abcd_store_def)
  have c: "strip '' Acme Ltd  '' = ''Acme Ltd''" and p: "strip ''Dev'' = ''Dev''"
    and u: "strip '' http://a.example '' = ''http://a.example''"
    by (simp_all add: strip_def isspace_def)
  have same: "save_application ''Dev'' ''   '' ''x'' ''2024-03-01'' None None (\<lambda>vs. vs) example_app =
      save_application ''Dev'' [] ''x'' ''2024-03-01'' None None (\<lambda>vs. vs) example_app"
    using add_strips_whitespace [of "''   ''" "''Dev''" "''x''" "''2024-03-01''" None None
            "\<lambda>vs. vs" example_app] blank
    by blast
  have "last (column_values ''Company'' (applications_df (snd (save_application ''Dev''
           '' Acme Ltd  '' '' http://a.example '' ''2024-03-01'' None None (\<lambda>vs. vs)
           example_app)))) = Str (strip '' Acme Ltd  '')"
    and "last (column_values ''Application Portal URL'' (applications_df (snd (save_application
           ''Dev'' '' Acme Ltd  '' '' http://a.example '' ''2024-03-01'' None None (\<lambda>vs. vs)
           example_app)))) = Str (strip '' http://a.example '')"
    using add_strips_whitespace [of "'' Acme Ltd  ''" "''Dev''" "'' http://a.example ''"
            "''2024-03-01''" None None "\<lambda>vs. vs" example_app] h c p
    by simp_all
  moreover have "isspace (CHR '' '')"
    by (simp add: isspace_def)
  ultimately show ?thesis
    using same c u by simp
qed

end
